theory Spec2Isabelle
  imports
    Complex_Main
    "HOL-Library.Char_ord"
    "HOL-Library.List_Lexorder"
    "HOL-Library.Product_Lexorder"
begin

section \<open>Data model of \<open>dashboard.py\<close>\<close>

text \<open>
  The dashboard works on pandas data frames. A data frame is modelled as the list of its
  rows, a row as a record with one field per column, named as the column is. A float64
  cell is an exact rational number: rounding, overflow and the special values of IEEE
  arithmetic are outside the model, except that the two places where the program could
  create a special value or raise (a division by zero, an aggregate of an empty list) are
  explicit error results. A cell that pandas leaves missing (NaN, None, NaT) is
  \<open>None\<close>.
\<close>

datatype error = ValueError | ZeroDivisionError | NaNResult

text \<open>
  A parsed check-in date is a triple (year, month, day); the lexicographic order of
  triples is the chronological order.
\<close>

type_synonym datetime = "nat \<times> nat \<times> nat"

text \<open>
  One row of a per-market frame as \<open>_load_single_db\<close> returns it: the hotel name, the
  check-in text, the price (already numeric, missing values replaced by 0) and three
  descriptive cells that may be missing. The two key cells, hotel and check-in, are text;
  a row with a missing key cell is outside the model.
\<close>

record market_row =
  m_otel :: string
  m_checkin :: string
  m_fiyat :: rat
  m_para_birimi :: "string option"
  m_cekilme_zamani :: "string option"
  m_source_note :: "string option"

text \<open>
  One row of the merged frame as \<open>merge_dataframes\<close> returns it: the \<open>checkin\<close> cell is
  a parsed date or missing (NaT), the four price cells are numbers, and the descriptive
  cells of a market are missing where that market has no row for the key.
\<close>

record merged_row =
  otel :: string
  checkin :: "datetime option"
  fiyat_tl :: rat
  para_birimi_tl :: "string option"
  cekilme_zamani_tr :: "string option"
  source_note_tr :: "string option"
  fiyat_usd :: rat
  para_birimi_usd :: "string option"
  cekilme_zamani_us :: "string option"
  source_note_us :: "string option"
  fiyat_eur :: rat
  para_birimi_eur :: "string option"
  cekilme_zamani_de :: "string option"
  source_note_de :: "string option"
  fiyat_gbp :: rat
  para_birimi_gbp :: "string option"
  cekilme_zamani_uk :: "string option"
  source_note_uk :: "string option"

text \<open>The columns that \<open>calculate_strategy_dataframe\<close> adds to a merged row.\<close>

record calc_row = merged_row +
  fiyat_usd_tl :: rat
  fiyat_eur_tl :: rat
  fiyat_gbp_tl :: rat
  fiyatlar_listesi :: "rat list"
  max_fiyat_tl :: rat
  min_fiyat_tl :: rat
  mean_fiyat_tl :: rat
  hedef_fiyat_tl :: rat
  fark_tr :: rat
  fark_us :: rat
  fark_de :: rat
  fark_uk :: rat
  fark_tr_yuzde :: rat
  fark_us_yuzde :: rat
  fark_de_yuzde :: rat
  fark_uk_yuzde :: rat

section \<open>Strategy engine: \<open>calculate_strategy_dataframe\<close>\<close>

text \<open>
  Python's \<open>max\<close> and \<open>min\<close> raise \<open>ValueError\<close> on an empty list; the mean of an
  empty pandas series is NaN; a division by zero raises or yields a special value.
\<close>

fun py_max :: "rat list \<Rightarrow> error + rat" where
  "py_max [] = Inl ValueError"
| "py_max (x # xs) = Inr (fold max xs x)"

fun py_min :: "rat list \<Rightarrow> error + rat" where
  "py_min [] = Inl ValueError"
| "py_min (x # xs) = Inr (fold min xs x)"

fun series_mean :: "rat list \<Rightarrow> error + rat" where
  "series_mean [] = Inl NaNResult"
| "series_mean (x # xs) = Inr (sum_list (x # xs) / of_nat (length (x # xs)))"

definition py_truediv :: "rat \<Rightarrow> rat \<Rightarrow> error + rat" where
  "py_truediv a b = (if b = 0 then Inl ZeroDivisionError else Inr (a / b))"

text \<open>The three lambdas of lines 306 to 308, applied to the cell \<open>fiyatlar_listesi\<close>.\<close>

definition max_fiyat :: "rat list \<Rightarrow> error + rat" where
  "max_fiyat x = (if length x > 0 then py_max x else Inr 0)"

definition min_fiyat :: "rat list \<Rightarrow> error + rat" where
  "min_fiyat x = (if length x > 0 then py_min x else Inr 0)"

definition mean_fiyat :: "rat list \<Rightarrow> error + rat" where
  "mean_fiyat x = (if length x > 0 then series_mean x else Inr 0)"

text \<open>
  \<open>calculate_percent_diff(row, fark_col)\<close>: the two cells it reads, \<open>hedef_fiyat_tl\<close>
  and the difference column, are its arguments here.
\<close>

definition calculate_percent_diff :: "rat \<Rightarrow> rat \<Rightarrow> error + rat" where
  "calculate_percent_diff hedef fark =
     (if hedef > 0
      then (case py_truediv fark hedef of Inl e \<Rightarrow> Inl e | Inr q \<Rightarrow> Inr (q * 100))
      else Inr 0)"

text \<open>
  The text that \<open>calculate_strategy_dataframe\<close> returns beside the frame is one of three
  fixed Turkish labels; they are kept as tags.
\<close>

datatype hedef_aciklama = En_Yuksek_Pazar_Fiyati | En_Dusuk_Pazar_Fiyati | Pazar_Ortalamasi_Fiyati

text \<open>
  The work of \<open>calculate_strategy_dataframe\<close> on one row. The source computes column by
  column over the whole frame; every new cell depends on cells of the same row only, so
  the model computes row by row, the columns in the order of the source.
\<close>

definition strategy_row :: "string \<Rightarrow> rat \<Rightarrow> rat \<Rightarrow> rat \<Rightarrow> merged_row \<Rightarrow> error + calc_row" where
  "strategy_row strateji_mod kur_usd_tl kur_eur_tl kur_gbp_tl row =
     (let usd_tl = fiyat_usd row * kur_usd_tl;
          eur_tl = fiyat_eur row * kur_eur_tl;
          gbp_tl = fiyat_gbp row * kur_gbp_tl;
          liste = filter (\<lambda>p. p > 0) [fiyat_tl row, usd_tl, eur_tl, gbp_tl]
      in case max_fiyat liste of Inl e \<Rightarrow> Inl e | Inr mx \<Rightarrow>
         (case min_fiyat liste of Inl e \<Rightarrow> Inl e | Inr mn \<Rightarrow>
         (case mean_fiyat liste of Inl e \<Rightarrow> Inl e | Inr mean \<Rightarrow>
         (let hedef = (if strateji_mod = ''MAX'' then mx
                       else if strateji_mod = ''MIN'' then mn
                       else mean);
              f_tr = fiyat_tl row - hedef;
              f_us = usd_tl - hedef;
              f_de = eur_tl - hedef;
              f_uk = gbp_tl - hedef
          in case calculate_percent_diff hedef f_tr of Inl e \<Rightarrow> Inl e | Inr y_tr \<Rightarrow>
             (case calculate_percent_diff hedef f_us of Inl e \<Rightarrow> Inl e | Inr y_us \<Rightarrow>
             (case calculate_percent_diff hedef f_de of Inl e \<Rightarrow> Inl e | Inr y_de \<Rightarrow>
             (case calculate_percent_diff hedef f_uk of Inl e \<Rightarrow> Inl e | Inr y_uk \<Rightarrow>
                Inr (merged_row.extend row
                      (calc_row.fields usd_tl eur_tl gbp_tl liste mx mn mean hedef
                         f_tr f_us f_de f_uk y_tr y_us y_de y_uk)))))))))"

fun map_rows :: "('a \<Rightarrow> error + 'b) \<Rightarrow> 'a list \<Rightarrow> error + 'b list" where
  "map_rows f [] = Inr []"
| "map_rows f (x # xs) =
     (case f x of Inl e \<Rightarrow> Inl e
      | Inr y \<Rightarrow> (case map_rows f xs of Inl e \<Rightarrow> Inl e | Inr ys \<Rightarrow> Inr (y # ys)))"

definition calculate_strategy_dataframe ::
  "merged_row list \<Rightarrow> string \<Rightarrow> rat \<Rightarrow> rat \<Rightarrow> rat \<Rightarrow> error + (calc_row list \<times> hedef_aciklama)" where
  "calculate_strategy_dataframe df strateji_mod kur_usd_tl kur_eur_tl kur_gbp_tl =
     (case map_rows (strategy_row strateji_mod kur_usd_tl kur_eur_tl kur_gbp_tl) df of
        Inl e \<Rightarrow> Inl e
      | Inr df_calc \<Rightarrow>
          Inr (df_calc,
               if strateji_mod = ''MAX'' then En_Yuksek_Pazar_Fiyati
               else if strateji_mod = ''MIN'' then En_Dusuk_Pazar_Fiyati
               else Pazar_Ortalamasi_Fiyati))"

text \<open>The four currency-normalized prices of a merged row, in the order TR, US, DE, UK.\<close>

definition normalized_prices :: "rat \<Rightarrow> rat \<Rightarrow> rat \<Rightarrow> merged_row \<Rightarrow> rat list" where
  "normalized_prices kur_usd_tl kur_eur_tl kur_gbp_tl row =
     [fiyat_tl row, fiyat_usd row * kur_usd_tl, fiyat_eur row * kur_eur_tl,
      fiyat_gbp row * kur_gbp_tl]"

section \<open>Recommendation ranker: \<open>display_recommendations_tab\<close>\<close>











section \<open>Scrape health classifier: \<open>categorize_note\<close>\<close>

definition success_notes :: "string list" where
  "success_notes =
     [''our_lowest_label'', ''min_from_list'', ''fallback_top_main_block'',
      ''en_dusuk_fiyatimiz_etiketi'', ''min_from_main_block'',
      ''niedrigster_preis_etikett'']"

definition error_notes :: "string list" where
  "error_notes =
     [''CRASH_OR_NOT_FOUND'', ''CRASH_OR_TIMEOUT'',
      ''main_block_id_timeout'', ''main_block_id_not_found'',
      ''main_block_find_error'', ''not_found'', ''Bilinmiyor'', ''N/A'']"

text \<open>Python's \<open>sub in s\<close> on strings: \<open>sub\<close> occurs in \<open>s\<close> as a contiguous block.\<close>

fun starts_with :: "string \<Rightarrow> string \<Rightarrow> bool" where
  "starts_with s [] = True"
| "starts_with [] (c # sub) = False"
| "starts_with (d # s) (c # sub) = (d = c \<and> starts_with s sub)"

fun str_contains :: "string \<Rightarrow> string \<Rightarrow> bool" where
  "str_contains sub [] = (sub = [])"
| "str_contains sub (c # s) = (starts_with (c # s) sub \<or> str_contains sub s)"

text \<open>
  The three categories are the labels "Basarili" (success), "Veri Cekilemedi" (failure)
  and "Diger" (other) of the source.
\<close>

datatype kategori = Basarili | Veri_Cekilemedi | Diger

text \<open>
  \<open>categorize_note\<close> appends to the enclosing function's list \<open>success_notes\<close>. The list
  is the state: the model takes its current value and returns the new one beside the
  category.
\<close>

definition categorize_note :: "string list \<Rightarrow> string \<Rightarrow> kategori \<times> string list" where
  "categorize_note notes note =
     (if note \<in> set notes then (Basarili, notes)
      else if note \<in> set error_notes then (Veri_Cekilemedi, notes)
      else if str_contains ''min_from_main_block'' note then (Basarili, notes @ [note])
      else (Diger, notes))"

text \<open>
  \<open>column.apply(categorize_note)\<close>: the notes of a column are classified from the first to
  the last, each call seeing the list as the calls before it left it.
\<close>

fun apply_categorize_note :: "string list \<Rightarrow> string list \<Rightarrow> kategori list \<times> string list" where
  "apply_categorize_note notes [] = ([], notes)"
| "apply_categorize_note notes (note # column) =
     (case categorize_note notes note of
        (k, notes') \<Rightarrow>
          (case apply_categorize_note notes' column of
             (ks, notes'') \<Rightarrow> (k # ks, notes'')))"

text \<open>
  The lists that \<open>success_notes\<close> can become: the initial list with notes added that
  contain the text of the main price block.
\<close>

definition notes_invariant :: "string list \<Rightarrow> bool" where
  "notes_invariant notes =
     (set success_notes \<subseteq> set notes \<and>
      (\<forall>n \<in> set notes. n \<in> set success_notes \<or> str_contains ''min_from_main_block'' n))"

section \<open>Record merger: \<open>merge_dataframes\<close>\<close>

text \<open>
  The join key is the pair of the \<open>otel\<close> and \<open>checkin\<close> cells, both text when the
  frames are merged. The other four cells of a market row travel together; in the merged
  frame the four cells of a market are missing together where the market has no row for
  the key, so they are one optional block.
\<close>

type_synonym key = "string \<times> string"

type_synonym cells = "rat \<times> string option \<times> string option \<times> string option"

definition frame_rows :: "market_row list \<Rightarrow> (key \<times> cells option) list" where
  "frame_rows df =
     map (\<lambda>r. ((m_otel r, m_checkin r),
               Some (m_fiyat r, m_para_birimi r, m_cekilme_zamani r, m_source_note r))) df"

text \<open>
  \<open>pd.merge(left, right, on=['otel', 'checkin'], how='outer')\<close> is a call into pandas; the
  model follows its documented behaviour. Every left row is paired with every right row
  of the same key, in the order of the right frame; a left row without a partner keeps
  its cells and gets missing cells on the right; the right rows whose key no left row has
  follow with missing cells on the left; the result is ordered by the key, rows of one key
  staying in the order just described.
\<close>

definition pd_merge_outer ::
  "'a \<Rightarrow> 'b \<Rightarrow> ('k::linorder \<times> 'a) list \<Rightarrow> ('k \<times> 'b) list \<Rightarrow> ('k \<times> 'a \<times> 'b) list" where
  "pd_merge_outer na_left na_right left right =
     sort_key fst
       (concat (map (\<lambda>(k, a).
                  (let partners = filter (\<lambda>(k', b). k' = k) right
                   in if partners = [] then [(k, a, na_right)]
                      else map (\<lambda>(k', b). (k, a, b)) partners)) left)
        @ map (\<lambda>(k, b). (k, na_left, b))
            (filter (\<lambda>(k, b). k \<notin> set (map fst left)) right))"

text \<open>The three merges of lines 166 to 168.\<close>

definition outer_join ::
  "market_row list \<Rightarrow> market_row list \<Rightarrow> market_row list \<Rightarrow> market_row list \<Rightarrow>
   (key \<times> ((cells option \<times> cells option) \<times> cells option) \<times> cells option) list" where
  "outer_join df_tr df_us df_de df_uk =
     (let m1 = pd_merge_outer None None (frame_rows df_tr) (frame_rows df_us);
          m2 = pd_merge_outer (None, None) None m1 (frame_rows df_de)
      in pd_merge_outer ((None, None), None) None m2 (frame_rows df_uk))"

text \<open>
  \<open>sort_values(by=['otel', 'checkin'])\<close> orders by hotel, then by date with the missing
  dates last, and is stable.
\<close>

definition checkin_sort_key :: "datetime option \<Rightarrow> nat \<times> datetime" where
  "checkin_sort_key d = (case d of None \<Rightarrow> (1, (0, 0, 0)) | Some t \<Rightarrow> (0, t))"

definition fillna0 :: "rat option \<Rightarrow> rat" where
  "fillna0 v = (case v of None \<Rightarrow> 0 | Some x \<Rightarrow> x)"

definition fiyat_of :: "cells option \<Rightarrow> rat option" where
  "fiyat_of c = map_option fst c"

definition para_birimi_of :: "cells option \<Rightarrow> string option" where
  "para_birimi_of c = Option.bind c (\<lambda>x. fst (snd x))"

definition cekilme_zamani_of :: "cells option \<Rightarrow> string option" where
  "cekilme_zamani_of c = Option.bind c (\<lambda>x. fst (snd (snd x)))"

definition source_note_of :: "cells option \<Rightarrow> string option" where
  "source_note_of c = Option.bind c (\<lambda>x. snd (snd (snd x)))"

text \<open>The four \<open>fillna(0)\<close> of lines 174 to 177 on one row, which then has its final shape.\<close>

definition fillna_row ::
  "(string \<times> datetime option) \<times> ((cells option \<times> cells option) \<times> cells option) \<times> cells option
   \<Rightarrow> merged_row" where
  "fillna_row x =
     (case x of ((o_name, d), ((tr, us), de), uk) \<Rightarrow>
        \<lparr>otel = o_name, checkin = d,
         fiyat_tl = fillna0 (fiyat_of tr), para_birimi_tl = para_birimi_of tr,
         cekilme_zamani_tr = cekilme_zamani_of tr, source_note_tr = source_note_of tr,
         fiyat_usd = fillna0 (fiyat_of us), para_birimi_usd = para_birimi_of us,
         cekilme_zamani_us = cekilme_zamani_of us, source_note_us = source_note_of us,
         fiyat_eur = fillna0 (fiyat_of de), para_birimi_eur = para_birimi_of de,
         cekilme_zamani_de = cekilme_zamani_of de, source_note_de = source_note_of de,
         fiyat_gbp = fillna0 (fiyat_of uk), para_birimi_gbp = para_birimi_of uk,
         cekilme_zamani_uk = cekilme_zamani_of uk, source_note_uk = source_note_of uk\<rparr>)"

text \<open>
  \<open>merge_dataframes\<close>. The date parser \<open>pd.to_datetime(..., errors='coerce')\<close> is a pandas
  function and a parameter of the model: it returns the date, or nothing (NaT) for a text
  it cannot parse.
\<close>

definition merge_dataframes ::
  "(string \<Rightarrow> datetime option) \<Rightarrow>
   market_row list \<Rightarrow> market_row list \<Rightarrow> market_row list \<Rightarrow> market_row list \<Rightarrow> merged_row list" where
  "merge_dataframes to_datetime df_tr df_us df_de df_uk =
     (let df_merged = outer_join df_tr df_us df_de df_uk;
          parsed = map (\<lambda>((o_name, c), cs). ((o_name, to_datetime c), cs)) df_merged;
          sorted_rows = sort_key (\<lambda>((o_name, d), cs). (o_name, checkin_sort_key d)) parsed
      in map fillna_row sorted_rows)"

text \<open>The key set of a market frame.\<close>

definition keys_of :: "market_row list \<Rightarrow> key set" where
  "keys_of df = (\<lambda>r. (m_otel r, m_checkin r)) ` set df"

text \<open>
  What a row of the join holds for one market at a key: the cells of one of the market's
  rows with that key, or nothing when the market has no row with that key.
\<close>

definition cells_match :: "market_row list \<Rightarrow> key \<Rightarrow> cells option \<Rightarrow> bool" where
  "cells_match df k c =
     (case c of None \<Rightarrow> k \<notin> keys_of df | Some x \<Rightarrow> (k, Some x) \<in> set (frame_rows df))"

text \<open>
  The same for a row of the merged frame, whose four cells of a market are given: the
  cells of one of the market's rows with that key, or the price 0 and missing descriptive
  cells when the market has no row with that key.
\<close>

definition market_cells :: "market_row list \<Rightarrow> key \<Rightarrow> cells \<Rightarrow> bool" where
  "market_cells df k c =
     (if k \<in> keys_of df
      then \<exists>m \<in> set df. (m_otel m, m_checkin m) = k \<and>
             c = (m_fiyat m, m_para_birimi m, m_cekilme_zamani m, m_source_note m)
      else c = (0, None, None, None))"

text \<open>
  One date parser to evaluate the merge with: it accepts the ISO form \<open>YYYY-MM-DD\<close> of a
  calendar date, a form that \<open>pd.to_datetime\<close> accepts too, and nothing else.
\<close>

definition digit_of :: "char \<Rightarrow> nat option" where
  "digit_of c =
     (let n = (of_char c :: nat) in if 48 \<le> n \<and> n \<le> 57 then Some (n - 48) else None)"

fun number_of :: "nat \<Rightarrow> string \<Rightarrow> nat option" where
  "number_of acc [] = Some acc"
| "number_of acc (c # cs) =
     (case digit_of c of None \<Rightarrow> None | Some d \<Rightarrow> number_of (10 * acc + d) cs)"

definition days_in_month :: "nat \<Rightarrow> nat \<Rightarrow> nat" where
  "days_in_month y m =
     (if m = 2 then (if y mod 4 = 0 \<and> (y mod 100 \<noteq> 0 \<or> y mod 400 = 0) then 29 else 28)
      else if m = 4 \<or> m = 6 \<or> m = 9 \<or> m = 11 then 30
      else 31)"

definition iso_to_datetime :: "string \<Rightarrow> datetime option" where
  "iso_to_datetime s =
     (if length s = 10 \<and> s ! 4 = CHR ''-'' \<and> s ! 7 = CHR ''-''
      then (case number_of 0 (take 4 s) of None \<Rightarrow> None | Some y \<Rightarrow>
           (case number_of 0 (take 2 (drop 5 s)) of None \<Rightarrow> None | Some m \<Rightarrow>
           (case number_of 0 (drop 8 s) of None \<Rightarrow> None | Some d \<Rightarrow>
              (if 1 \<le> m \<and> m \<le> 12 \<and> 1 \<le> d \<and> d \<le> days_in_month y m
               then Some (y, m, d) else None))))
      else None)"

section \<open>Example data\<close>

text \<open>
  A merged row of the hotel "Grand Plaza" on 2025-06-01 with the four native prices
  given, used to evaluate the functions on concrete records.
\<close>

definition fiyat_row :: "rat \<Rightarrow> rat \<Rightarrow> rat \<Rightarrow> rat \<Rightarrow> merged_row" where
  "fiyat_row p_tl p_usd p_eur p_gbp =
     \<lparr>otel = ''Grand Plaza'', checkin = Some (2025, 6, 1),
      fiyat_tl = p_tl, para_birimi_tl = Some ''TRY'', cekilme_zamani_tr = None,
      source_note_tr = Some ''min_from_list'',
      fiyat_usd = p_usd, para_birimi_usd = Some ''USD'', cekilme_zamani_us = None,
      source_note_us = Some ''min_from_list'',
      fiyat_eur = p_eur, para_birimi_eur = Some ''EUR'', cekilme_zamani_de = None,
      source_note_de = Some ''min_from_list'',
      fiyat_gbp = p_gbp, para_birimi_gbp = Some ''GBP'', cekilme_zamani_uk = None,
      source_note_uk = Some ''min_from_list''\<rparr>"

text \<open>A row of a market frame with the given hotel, check-in text and price.\<close>

definition pazar_row :: "string \<Rightarrow> string \<Rightarrow> rat \<Rightarrow> market_row" where
  "pazar_row hotel day price =
     \<lparr>m_otel = hotel, m_checkin = day, m_fiyat = price, m_para_birimi = Some ''TRY'',
      m_cekilme_zamani = Some ''2025-05-01 10:00:00'', m_source_note = Some ''min_from_list''\<rparr>"

text \<open>
  The strategy frame of four such rows under the exchange rates 35, 37 and 43: a row whose
  markets are within a few percent of each other, a row with larger differences, a row
  without any price and a row with two markets missing.
\<close>

definition ornek_df :: "string \<Rightarrow> calc_row list" where
  "ornek_df strateji_mod =
     fst (projr (calculate_strategy_dataframe
       [fiyat_row 3000 80 75 65, fiyat_row 3000 80 100 60, fiyat_row 0 0 0 0,
        fiyat_row 1000 0 50 0] strateji_mod 35 37 43))"

section \<open>Properties of the strategy engine\<close>

lemma py_max_eq: "xs \<noteq> [] \<Longrightarrow> py_max xs = Inr (Max (set xs))"
proof (cases xs)
  case (Cons a list)
  then show ?thesis using Max.set_eq_fold [of a list] by simp
qed simp

lemma py_min_eq: "xs \<noteq> [] \<Longrightarrow> py_min xs = Inr (Min (set xs))"
proof (cases xs)
  case (Cons a list)
  then show ?thesis using Min.set_eq_fold [of a list] by simp
qed simp

lemma series_mean_eq: "xs \<noteq> [] \<Longrightarrow> series_mean xs = Inr (sum_list xs / of_nat (length xs))"
  by (cases xs) simp_all

lemma max_fiyat_eq: "max_fiyat xs = Inr (if xs = [] then 0 else Max (set xs))"
  by (simp add: max_fiyat_def py_max_eq)

lemma min_fiyat_eq: "min_fiyat xs = Inr (if xs = [] then 0 else Min (set xs))"
  by (simp add: min_fiyat_def py_min_eq)

lemma mean_fiyat_eq:
  "mean_fiyat xs = Inr (if xs = [] then 0 else sum_list xs / of_nat (length xs))"
  by (simp add: mean_fiyat_def series_mean_eq)

lemma calculate_percent_diff_eq:
  "calculate_percent_diff hedef fark = Inr (if hedef > 0 then fark / hedef * 100 else 0)"
  by (simp add: calculate_percent_diff_def py_truediv_def)

lemma strategy_row_eq:
  fixes row :: merged_row and ku ke kg :: rat and m :: string
  defines "L \<equiv> filter (\<lambda>p. p > 0) (normalized_prices ku ke kg row)"
  defines "h \<equiv> (if m = ''MAX'' then (if L = [] then 0 else Max (set L))
      else if m = ''MIN'' then (if L = [] then 0 else Min (set L))
      else (if L = [] then 0 else sum_list L / of_nat (length L)))"
  shows "strategy_row m ku ke kg row =
     Inr (merged_row.extend row
           (calc_row.fields (fiyat_usd row * ku) (fiyat_eur row * ke) (fiyat_gbp row * kg) L
              (if L = [] then 0 else Max (set L))
              (if L = [] then 0 else Min (set L))
              (if L = [] then 0 else sum_list L / of_nat (length L))
              h
              (fiyat_tl row - h) (fiyat_usd row * ku - h) (fiyat_eur row * ke - h)
              (fiyat_gbp row * kg - h)
              (if h > 0 then (fiyat_tl row - h) / h * 100 else 0)
              (if h > 0 then (fiyat_usd row * ku - h) / h * 100 else 0)
              (if h > 0 then (fiyat_eur row * ke - h) / h * 100 else 0)
              (if h > 0 then (fiyat_gbp row * kg - h) / h * 100 else 0)))"
  by (simp only: strategy_row_def Let_def max_fiyat_eq min_fiyat_eq mean_fiyat_eq
    calculate_percent_diff_eq sum.case L_def h_def normalized_prices_def)


lemma strategy_row_result:
  fixes row :: merged_row and ku ke kg :: rat and m :: string
  shows "\<exists>r L h.
    strategy_row m ku ke kg row = Inr r \<and>
    L = filter (\<lambda>p. 0 < p) (normalized_prices ku ke kg row) \<and>
    h = (if L = [] then 0
         else if m = ''MAX'' then Max (set L)
         else if m = ''MIN'' then Min (set L)
         else sum_list L / of_nat (length L)) \<and>
    merged_row.truncate r = row \<and>
    [fiyat_tl r, fiyat_usd_tl r, fiyat_eur_tl r, fiyat_gbp_tl r] = normalized_prices ku ke kg row \<and>
    fiyatlar_listesi r = L \<and>
    max_fiyat_tl r = (if L = [] then 0 else Max (set L)) \<and>
    min_fiyat_tl r = (if L = [] then 0 else Min (set L)) \<and>
    mean_fiyat_tl r = (if L = [] then 0 else sum_list L / of_nat (length L)) \<and>
    hedef_fiyat_tl r = h \<and>
    fark_tr r = fiyat_tl r - h \<and>
    fark_us r = fiyat_usd_tl r - h \<and>
    fark_de r = fiyat_eur_tl r - h \<and>
    fark_uk r = fiyat_gbp_tl r - h \<and>
    fark_tr_yuzde r = (if h > 0 then fark_tr r / h * 100 else 0) \<and>
    fark_us_yuzde r = (if h > 0 then fark_us r / h * 100 else 0) \<and>
    fark_de_yuzde r = (if h > 0 then fark_de r / h * 100 else 0) \<and>
    fark_uk_yuzde r = (if h > 0 then fark_uk r / h * 100 else 0)"
proof -
  define L where "L = filter (\<lambda>p. 0 < p) (normalized_prices ku ke kg row)"
  define h where "h = (if L = [] then 0
         else if m = ''MAX'' then Max (set L)
         else if m = ''MIN'' then Min (set L)
         else sum_list L / of_nat (length L))"
  have h_code: "(if m = ''MAX'' then (if L = [] then 0 else Max (set L))
      else if m = ''MIN'' then (if L = [] then 0 else Min (set L))
      else (if L = [] then 0 else sum_list L / of_nat (length L))) = h"
    by (simp add: h_def)
  note eq = strategy_row_eq [of m ku ke kg row, folded L_def, unfolded h_code]
  show ?thesis
    apply (rule exI, rule exI [of _ L], rule exI [of _ h])
    apply (intro conjI)
    apply (rule eq)
    apply (rule L_def)
    apply (rule h_def)
    apply (simp_all add: merged_row.extend_def calc_row.fields_def merged_row.truncate_def
        normalized_prices_def)
    done
qed

lemma filter_pos_Max: "filter (\<lambda>p. p > (0::rat)) xs \<noteq> [] \<Longrightarrow> 0 < Max (set (filter (\<lambda>p. p > 0) xs))"
  by (subst Max_gr_iff) (auto simp: filter_empty_conv)







lemma map_rows_total:
  "(\<And>x. x \<in> set xs \<Longrightarrow> \<exists>y. f x = Inr y) \<Longrightarrow>
   \<exists>ys. map_rows f xs = Inr ys \<and> list_all2 (\<lambda>x y. f x = Inr y) xs ys"
proof (induction xs)
  case Nil
  then show ?case by simp
next
  case (Cons x xs)
  from Cons.prems obtain y where y: "f x = Inr y" by auto
  from Cons obtain ys where ys: "map_rows f xs = Inr ys" "list_all2 (\<lambda>x y. f x = Inr y) xs ys"
    by auto
  show ?case using y ys by simp
qed

lemma calculate_strategy_dataframe_rows:
  "\<exists>df_calc aciklama.
     calculate_strategy_dataframe df m ku ke kg = Inr (df_calc, aciklama) \<and>
     list_all2 (\<lambda>row r. strategy_row m ku ke kg row = Inr r) df df_calc"
proof -
  have "\<exists>y. strategy_row m ku ke kg x = Inr y" for x
    using strategy_row_result [of m ku ke kg x] by blast
  then obtain ys where "map_rows (strategy_row m ku ke kg) df = Inr ys"
    "list_all2 (\<lambda>row r. strategy_row m ku ke kg row = Inr r) df ys"
    using map_rows_total [of df "strategy_row m ku ke kg"] by blast
  then show ?thesis by (simp add: calculate_strategy_dataframe_def)
qed


lemma calculate_strategy_dataframe_nth:
  "\<exists>df_calc aciklama.
     calculate_strategy_dataframe df m ku ke kg = Inr (df_calc, aciklama) \<and>
     length df_calc = length df \<and>
     (\<forall>i<length df. strategy_row m ku ke kg (df ! i) = Inr (df_calc ! i))"
proof -
  from calculate_strategy_dataframe_rows [of df m ku ke kg]
  obtain df_calc aciklama where
    eq: "calculate_strategy_dataframe df m ku ke kg = Inr (df_calc, aciklama)"
    and all2: "list_all2 (\<lambda>row r. strategy_row m ku ke kg row = Inr r) df df_calc"
    by blast
  have len: "length df_calc = length df"
    using all2 by (simp add: list_all2_lengthD)
  have "strategy_row m ku ke kg (df ! i) = Inr (df_calc ! i)" if "i < length df" for i
    using all2 that by (rule list_all2_nthD)
  with eq len show ?thesis by blast
qed

text \<open>
  Claim C1. For every record of the frame and every strategy mode, the list of available
  prices is exactly the list of the normalized prices that are strictly greater than 0,
  and the target price is the maximum of that list under MAX, its minimum under MIN and
  its arithmetic mean under MEAN (the mode of every other text), and 0 when the list is
  empty. The computation returns a frame with one record for each input record.
\<close>

theorem strategy_target_by_mode:
  "\<exists>df_calc aciklama.
     calculate_strategy_dataframe df strateji_mod ku ke kg = Inr (df_calc, aciklama) \<and>
     length df_calc = length df \<and>
     (\<forall>i<length df.
        [fiyat_tl (df_calc ! i), fiyat_usd_tl (df_calc ! i), fiyat_eur_tl (df_calc ! i),
         fiyat_gbp_tl (df_calc ! i)] = normalized_prices ku ke kg (df ! i) \<and>
        fiyatlar_listesi (df_calc ! i) =
          filter (\<lambda>p. 0 < p) (normalized_prices ku ke kg (df ! i)) \<and>
        hedef_fiyat_tl (df_calc ! i) =
          (if fiyatlar_listesi (df_calc ! i) = [] then 0
           else if strateji_mod = ''MAX'' then Max (set (fiyatlar_listesi (df_calc ! i)))
           else if strateji_mod = ''MIN'' then Min (set (fiyatlar_listesi (df_calc ! i)))
           else sum_list (fiyatlar_listesi (df_calc ! i)) /
                  of_nat (length (fiyatlar_listesi (df_calc ! i)))))"
proof -
  obtain df_calc aciklama where
    eq: "calculate_strategy_dataframe df strateji_mod ku ke kg = Inr (df_calc, aciklama)"
    and len: "length df_calc = length df"
    and nth: "\<And>i. i < length df \<Longrightarrow>
                strategy_row strateji_mod ku ke kg (df ! i) = Inr (df_calc ! i)"
    using calculate_strategy_dataframe_nth [of df strateji_mod ku ke kg] by blast
  have "[fiyat_tl (df_calc ! i), fiyat_usd_tl (df_calc ! i), fiyat_eur_tl (df_calc ! i),
         fiyat_gbp_tl (df_calc ! i)] = normalized_prices ku ke kg (df ! i) \<and>
        fiyatlar_listesi (df_calc ! i) =
          filter (\<lambda>p. 0 < p) (normalized_prices ku ke kg (df ! i)) \<and>
        hedef_fiyat_tl (df_calc ! i) =
          (if fiyatlar_listesi (df_calc ! i) = [] then 0
           else if strateji_mod = ''MAX'' then Max (set (fiyatlar_listesi (df_calc ! i)))
           else if strateji_mod = ''MIN'' then Min (set (fiyatlar_listesi (df_calc ! i)))
           else sum_list (fiyatlar_listesi (df_calc ! i)) /
                  of_nat (length (fiyatlar_listesi (df_calc ! i))))"
    if i: "i < length df" for i
  proof -
    obtain r L h where r: "strategy_row strateji_mod ku ke kg (df ! i) = Inr r"
      and L: "L = filter (\<lambda>p. 0 < p) (normalized_prices ku ke kg (df ! i))"
      and h: "h = (if L = [] then 0
         else if strateji_mod = ''MAX'' then Max (set L)
         else if strateji_mod = ''MIN'' then Min (set L)
         else sum_list L / of_nat (length L))"
      and fields: "[fiyat_tl r, fiyat_usd_tl r, fiyat_eur_tl r, fiyat_gbp_tl r]
                     = normalized_prices ku ke kg (df ! i)"
        "fiyatlar_listesi r = L" "hedef_fiyat_tl r = h"
      using strategy_row_result [of strateji_mod ku ke kg "df ! i"] by blast
    from r nth [OF i] have "df_calc ! i = r" by simp
    then show ?thesis
      using fields L h by simp
  qed
  with eq len show ?thesis by blast
qed

theorem strategy_target_by_mode_witness:
  "\<exists>df_calc aciklama.
     calculate_strategy_dataframe [fiyat_row 3000 80 75 65] ''MAX'' 35 37 43
       = Inr (df_calc, aciklama) \<and>
     (0::nat) < length [fiyat_row 3000 80 75 65] \<and>
     fiyatlar_listesi (df_calc ! 0) = [3000, 2800, 2775, 2795] \<and>
     hedef_fiyat_tl (df_calc ! 0) = 3000"
  using strategy_target_by_mode [of "[fiyat_row 3000 80 75 65]" "''MAX''" 35 37 43]
  by (auto simp: normalized_prices_def fiyat_row_def)







lemma filter_pos_le_Max:
  fixes xs :: "rat list"
  assumes "filter (\<lambda>p. 0 < p) xs \<noteq> []" and "x \<in> set xs"
  shows "x \<le> Max (set (filter (\<lambda>p. 0 < p) xs))"
proof (cases "0 < x")
  case True
  with assms(2) have "x \<in> set (filter (\<lambda>p. 0 < p) xs)" by simp
  then show ?thesis by (simp only: Max_ge List.finite_set)
next
  case False
  with filter_pos_Max [OF assms(1)] show ?thesis by linarith
qed

lemma filter_pos_empty_le:
  fixes xs :: "rat list"
  assumes "filter (\<lambda>p. 0 < p) xs = []" and "x \<in> set xs"
  shows "x \<le> 0"
  using assms by (auto simp: filter_empty_conv not_less)

text \<open>
  Claim C8. For every record under the MAX strategy the target price is the maximum of
  the available prices (0 when there are none), and at least one market's deviation
  amount is at most 0; in fact no market's deviation amount is positive, the market that
  achieves the maximum has the deviation 0, and when no price is available and no
  normalized price is negative, the deviation of every market is 0.
\<close>

theorem max_strategy_deviation:
  "\<exists>df_calc aciklama.
     calculate_strategy_dataframe df ''MAX'' ku ke kg = Inr (df_calc, aciklama) \<and>
     length df_calc = length df \<and>
     (\<forall>i<length df.
        fiyatlar_listesi (df_calc ! i) =
          filter (\<lambda>p. 0 < p) (normalized_prices ku ke kg (df ! i)) \<and>
        hedef_fiyat_tl (df_calc ! i) =
          (if fiyatlar_listesi (df_calc ! i) = [] then 0
           else Max (set (fiyatlar_listesi (df_calc ! i)))) \<and>
        [fark_tr (df_calc ! i), fark_us (df_calc ! i), fark_de (df_calc ! i),
         fark_uk (df_calc ! i)] =
          map (\<lambda>p. p - hedef_fiyat_tl (df_calc ! i)) (normalized_prices ku ke kg (df ! i)) \<and>
        (fark_tr (df_calc ! i) \<le> 0 \<and> fark_us (df_calc ! i) \<le> 0 \<and>
         fark_de (df_calc ! i) \<le> 0 \<and> fark_uk (df_calc ! i) \<le> 0) \<and>
        (fiyatlar_listesi (df_calc ! i) \<noteq> [] \<longrightarrow>
           fark_tr (df_calc ! i) = 0 \<or> fark_us (df_calc ! i) = 0 \<or>
           fark_de (df_calc ! i) = 0 \<or> fark_uk (df_calc ! i) = 0) \<and>
        (fiyatlar_listesi (df_calc ! i) = [] \<and>
         (\<forall>p \<in> set (normalized_prices ku ke kg (df ! i)). 0 \<le> p) \<longrightarrow>
           fark_tr (df_calc ! i) = 0 \<and> fark_us (df_calc ! i) = 0 \<and>
           fark_de (df_calc ! i) = 0 \<and> fark_uk (df_calc ! i) = 0))"
proof -
  obtain df_calc aciklama where
    eq: "calculate_strategy_dataframe df ''MAX'' ku ke kg = Inr (df_calc, aciklama)"
    and len: "length df_calc = length df"
    and nth: "\<And>i. i < length df \<Longrightarrow>
                strategy_row ''MAX'' ku ke kg (df ! i) = Inr (df_calc ! i)"
    using calculate_strategy_dataframe_nth [of df "''MAX''" ku ke kg] by blast
  have "fiyatlar_listesi (df_calc ! i) =
          filter (\<lambda>p. 0 < p) (normalized_prices ku ke kg (df ! i)) \<and>
        hedef_fiyat_tl (df_calc ! i) =
          (if fiyatlar_listesi (df_calc ! i) = [] then 0
           else Max (set (fiyatlar_listesi (df_calc ! i)))) \<and>
        [fark_tr (df_calc ! i), fark_us (df_calc ! i), fark_de (df_calc ! i),
         fark_uk (df_calc ! i)] =
          map (\<lambda>p. p - hedef_fiyat_tl (df_calc ! i)) (normalized_prices ku ke kg (df ! i)) \<and>
        (fark_tr (df_calc ! i) \<le> 0 \<and> fark_us (df_calc ! i) \<le> 0 \<and>
         fark_de (df_calc ! i) \<le> 0 \<and> fark_uk (df_calc ! i) \<le> 0) \<and>
        (fiyatlar_listesi (df_calc ! i) \<noteq> [] \<longrightarrow>
           fark_tr (df_calc ! i) = 0 \<or> fark_us (df_calc ! i) = 0 \<or>
           fark_de (df_calc ! i) = 0 \<or> fark_uk (df_calc ! i) = 0) \<and>
        (fiyatlar_listesi (df_calc ! i) = [] \<and>
         (\<forall>p \<in> set (normalized_prices ku ke kg (df ! i)). 0 \<le> p) \<longrightarrow>
           fark_tr (df_calc ! i) = 0 \<and> fark_us (df_calc ! i) = 0 \<and>
           fark_de (df_calc ! i) = 0 \<and> fark_uk (df_calc ! i) = 0)"
    if i: "i < length df" for i
  proof -
    define N where "N = normalized_prices ku ke kg (df ! i)"
    obtain r L h where r: "strategy_row ''MAX'' ku ke kg (df ! i) = Inr r"
      and L: "L = filter (\<lambda>p. 0 < p) N"
      and h: "h = (if L = [] then 0
         else if ''MAX'' = ''MAX'' then Max (set L)
         else if ''MAX'' = ''MIN'' then Min (set L)
         else sum_list L / of_nat (length L))"
      and norm: "[fiyat_tl r, fiyat_usd_tl r, fiyat_eur_tl r, fiyat_gbp_tl r] = N"
      and liste: "fiyatlar_listesi r = L"
      and hedef: "hedef_fiyat_tl r = h"
      and fark: "fark_tr r = fiyat_tl r - h" "fark_us r = fiyat_usd_tl r - h"
        "fark_de r = fiyat_eur_tl r - h" "fark_uk r = fiyat_gbp_tl r - h"
      using strategy_row_result [of "''MAX''" ku ke kg "df ! i"] unfolding N_def by blast
    have ri: "df_calc ! i = r" using r nth [OF i] by simp
    have hmax: "h = (if L = [] then 0 else Max (set L))" using h by simp
    have le: "p \<le> h" if "p \<in> set N" for p
      using that filter_pos_le_Max [of N p] filter_pos_empty_le [of N p]
      unfolding hmax L by (cases "filter (\<lambda>p. 0 < p) N = []") simp_all
    have mem: "h \<in> set N" if "L \<noteq> []"
    proof -
      from that have "Max (set L) \<in> set L" by simp
      then show ?thesis using that unfolding hmax L by simp
    qed
    have zero: "p = 0" if "L = []" "\<forall>p \<in> set N. 0 \<le> p" "p \<in> set N" for p
      using that filter_pos_empty_le [of N p] unfolding L by fastforce
    have Nset: "set N = {fiyat_tl r, fiyat_usd_tl r, fiyat_eur_tl r, fiyat_gbp_tl r}"
      using norm [symmetric] by simp
    have all_le: "fark_tr r \<le> 0 \<and> fark_us r \<le> 0 \<and> fark_de r \<le> 0 \<and> fark_uk r \<le> 0"
      using le unfolding Nset fark by simp
    have some_zero: "fark_tr r = 0 \<or> fark_us r = 0 \<or> fark_de r = 0 \<or> fark_uk r = 0"
      if "L \<noteq> []"
      using mem [OF that] unfolding Nset fark by auto
    have all_zero: "fark_tr r = 0 \<and> fark_us r = 0 \<and> fark_de r = 0 \<and> fark_uk r = 0"
      if "L = []" "\<forall>p \<in> set N. 0 \<le> p"
    proof -
      have "h = 0" using that(1) hmax by simp
      moreover have "fiyat_tl r = 0" "fiyat_usd_tl r = 0" "fiyat_eur_tl r = 0" "fiyat_gbp_tl r = 0"
        using zero [OF that] unfolding Nset by simp_all
      ultimately show ?thesis unfolding fark by simp
    qed
    have farks: "[fark_tr r, fark_us r, fark_de r, fark_uk r] = map (\<lambda>p. p - h) N"
      unfolding norm [symmetric] fark by simp
    show ?thesis
      unfolding ri liste hedef N_def [symmetric]
      using L hmax farks all_le some_zero all_zero by blast
  qed
  with eq len show ?thesis by blast
qed


theorem max_strategy_deviation_witness:
  "\<exists>df_calc aciklama.
     calculate_strategy_dataframe [fiyat_row 3000 80 75 65, fiyat_row 0 0 0 0] ''MAX'' 35 37 43
       = Inr (df_calc, aciklama) \<and>
     (1::nat) < length [fiyat_row 3000 80 75 65, fiyat_row 0 0 0 0] \<and>
     fiyatlar_listesi (df_calc ! 0) = [3000, 2800, 2775, 2795] \<and>
     hedef_fiyat_tl (df_calc ! 0) = 3000 \<and>
     [fark_tr (df_calc ! 0), fark_us (df_calc ! 0), fark_de (df_calc ! 0), fark_uk (df_calc ! 0)]
       = [0, - 200, - 225, - 205] \<and>
     fiyatlar_listesi (df_calc ! 1) = [] \<and>
     hedef_fiyat_tl (df_calc ! 1) = 0 \<and>
     [fark_tr (df_calc ! 1), fark_us (df_calc ! 1), fark_de (df_calc ! 1), fark_uk (df_calc ! 1)]
       = [0, 0, 0, 0]"
proof -
  let ?df = "[fiyat_row 3000 80 75 65, fiyat_row 0 0 0 0]"
  from max_strategy_deviation [of ?df 35 37 43]
  obtain df_calc aciklama where
    eq: "calculate_strategy_dataframe ?df ''MAX'' 35 37 43 = Inr (df_calc, aciklama)"
    and all: "\<forall>i<length ?df.
        fiyatlar_listesi (df_calc ! i) =
          filter (\<lambda>p. 0 < p) (normalized_prices 35 37 43 (?df ! i)) \<and>
        hedef_fiyat_tl (df_calc ! i) =
          (if fiyatlar_listesi (df_calc ! i) = [] then 0
           else Max (set (fiyatlar_listesi (df_calc ! i)))) \<and>
        [fark_tr (df_calc ! i), fark_us (df_calc ! i), fark_de (df_calc ! i),
         fark_uk (df_calc ! i)] =
          map (\<lambda>p. p - hedef_fiyat_tl (df_calc ! i)) (normalized_prices 35 37 43 (?df ! i)) \<and>
        (fark_tr (df_calc ! i) \<le> 0 \<and> fark_us (df_calc ! i) \<le> 0 \<and>
         fark_de (df_calc ! i) \<le> 0 \<and> fark_uk (df_calc ! i) \<le> 0) \<and>
        (fiyatlar_listesi (df_calc ! i) \<noteq> [] \<longrightarrow>
           fark_tr (df_calc ! i) = 0 \<or> fark_us (df_calc ! i) = 0 \<or>
           fark_de (df_calc ! i) = 0 \<or> fark_uk (df_calc ! i) = 0) \<and>
        (fiyatlar_listesi (df_calc ! i) = [] \<and>
         (\<forall>p \<in> set (normalized_prices 35 37 43 (?df ! i)). 0 \<le> p) \<longrightarrow>
           fark_tr (df_calc ! i) = 0 \<and> fark_us (df_calc ! i) = 0 \<and>
           fark_de (df_calc ! i) = 0 \<and> fark_uk (df_calc ! i) = 0)"
    by blast
  from all [THEN spec, of 0]
  have r0: "fiyatlar_listesi (df_calc ! 0) = [3000, 2800, 2775, 2795] \<and>
     hedef_fiyat_tl (df_calc ! 0) = 3000 \<and>
     [fark_tr (df_calc ! 0), fark_us (df_calc ! 0), fark_de (df_calc ! 0), fark_uk (df_calc ! 0)]
       = [0, - 200, - 225, - 205]"
    by (auto simp: normalized_prices_def fiyat_row_def)
  from all [THEN spec, of 1]
  have r1: "fiyatlar_listesi (df_calc ! 1) = [] \<and>
     hedef_fiyat_tl (df_calc ! 1) = 0 \<and>
     [fark_tr (df_calc ! 1), fark_us (df_calc ! 1), fark_de (df_calc ! 1), fark_uk (df_calc ! 1)]
       = [0, 0, 0, 0]"
    by (auto simp: normalized_prices_def fiyat_row_def)
  from eq r0 r1 show ?thesis by auto
qed

section \<open>Properties of the recommendation ranker\<close>












lemmas ornek_eval = ornek_df_def calculate_strategy_dataframe_def strategy_row_eq
  normalized_prices_def fiyat_row_def merged_row.extend_def calc_row.fields_def

lemma ornek_df_MAX_length: "length (ornek_df ''MAX'') = 4"
  by (simp add: ornek_eval)

lemma ornek_df_MAX_yuzde:
  "map fark_tr_yuzde (ornek_df ''MAX'') = [0, - (700 / 37), 0, - (1700 / 37)]"
  "map fark_us_yuzde (ornek_df ''MAX'') = [- (20 / 3), - (900 / 37), 0, - 100]"
  "map fark_de_yuzde (ornek_df ''MAX'') = [- (15 / 2), 0, 0, 0]"
  "map fark_uk_yuzde (ornek_df ''MAX'') = [- (41 / 6), - (1120 / 37), 0, - 100]"
  by (simp_all add: ornek_eval)









section \<open>Properties of the scrape health classifier\<close>

lemma starts_with_iff: "starts_with s sub = (\<exists>ss. s = sub @ ss)"
  by (induction s sub rule: starts_with.induct) auto

lemma str_contains_iff: "str_contains sub s = (\<exists>ps ss. s = ps @ sub @ ss)"
proof (induction s)
  case Nil
  then show ?case by auto
next
  case (Cons c s)
  show ?case
  proof
    assume "str_contains sub (c # s)"
    then consider "starts_with (c # s) sub" | "str_contains sub s" by auto
    then show "\<exists>ps ss. c # s = ps @ sub @ ss"
    proof cases
      case 1
      then obtain ss where "c # s = sub @ ss" by (auto simp: starts_with_iff)
      then have "c # s = [] @ sub @ ss" by simp
      then show ?thesis by blast
    next
      case 2
      with Cons obtain ps ss where "s = ps @ sub @ ss" by blast
      then have "c # s = (c # ps) @ sub @ ss" by simp
      then show ?thesis by blast
    qed
  next
    assume "\<exists>ps ss. c # s = ps @ sub @ ss"
    then obtain ps ss where eq: "c # s = ps @ sub @ ss" by blast
    show "str_contains sub (c # s)"
    proof (cases ps)
      case Nil
      with eq have "starts_with (c # s) sub" by (auto simp: starts_with_iff)
      then show ?thesis by simp
    next
      case (Cons p ps')
      with eq have "s = ps' @ sub @ ss" by simp
      with Cons.IH have "str_contains sub s" by blast
      then show ?thesis by simp
    qed
  qed
qed

lemma error_notes_no_block:
  "note \<in> set error_notes \<Longrightarrow> \<not> str_contains ''min_from_main_block'' note"
  by (auto simp: error_notes_def)

lemma categorize_note_cases:
  "fst (categorize_note notes note) =
     (if note \<in> set notes then Basarili
      else if note \<in> set error_notes then Veri_Cekilemedi
      else if str_contains ''min_from_main_block'' note then Basarili
      else Diger)"
  "snd (categorize_note notes note) =
     (if note \<notin> set notes \<and> note \<notin> set error_notes \<and>
         str_contains ''min_from_main_block'' note
      then notes @ [note] else notes)"
  by (simp_all add: categorize_note_def)

lemma notes_invariant_initial: "notes_invariant success_notes"
  by (simp add: notes_invariant_def)

lemma notes_invariant_step:
  "notes_invariant notes \<Longrightarrow> notes_invariant (snd (categorize_note notes note))"
  by (auto simp: notes_invariant_def categorize_note_cases)

lemma categorize_note_stateless:
  assumes "notes_invariant notes"
  shows "fst (categorize_note notes note) = fst (categorize_note success_notes note)"
proof (cases "note \<in> set notes")
  case True
  show ?thesis
  proof (cases "note \<in> set success_notes")
    case True
    with assms show ?thesis by (auto simp: categorize_note_cases notes_invariant_def)
  next
    case False
    with True assms have c: "str_contains ''min_from_main_block'' note"
      by (auto simp: notes_invariant_def)
    then have "note \<notin> set error_notes" using error_notes_no_block by blast
    with True False c show ?thesis by (simp add: categorize_note_cases)
  qed
next
  case False
  with assms have "note \<notin> set success_notes" by (auto simp: notes_invariant_def)
  with False show ?thesis by (simp add: categorize_note_cases)
qed

lemma apply_categorize_note_stateless:
  "notes_invariant ns \<Longrightarrow>
   fst (apply_categorize_note ns column) =
     map (\<lambda>note. fst (categorize_note success_notes note)) column \<and>
   notes_invariant (snd (apply_categorize_note ns column))"
proof (induction column arbitrary: ns)
  case Nil
  then show ?case by simp
next
  case (Cons n column)
  obtain k ns' where step: "categorize_note ns n = (k, ns')"
    by (cases "categorize_note ns n")
  obtain ks ns'' where rest: "apply_categorize_note ns' column = (ks, ns'')"
    by (cases "apply_categorize_note ns' column")
  have k: "k = fst (categorize_note success_notes n)"
    using categorize_note_stateless [OF Cons.prems, of n] step by simp
  have inv': "notes_invariant ns'"
    using notes_invariant_step [OF Cons.prems, of n] step by simp
  from Cons.IH [OF inv'] rest
  have "ks = map (\<lambda>n. fst (categorize_note success_notes n)) column"
    and "notes_invariant ns''" by simp_all
  with k step rest show ?case by simp
qed


text \<open>
  Claim C9. The classifier gives every note exactly one of the three categories: success
  for a note of the success list, else failure for a note of the failure list, else
  success for a note that contains the text "min_from_main_block", else other. So
  "CRASH_OR_TIMEOUT" is a failure, "min_from_list" a success and "xyz" other; and whatever
  the success list has become, a note that contains the text of the main price block is a
  success, also when it is not in the success list.
\<close>

theorem categorize_note_classification:
  "fst (categorize_note success_notes ''CRASH_OR_TIMEOUT'') = Veri_Cekilemedi \<and>
   fst (categorize_note success_notes ''min_from_list'') = Basarili \<and>
   fst (categorize_note success_notes ''xyz'') = Diger \<and>
   fst (categorize_note success_notes s) =
     (if s \<in> set success_notes then Basarili
      else if s \<in> set error_notes then Veri_Cekilemedi
      else if \<exists>ps ss. s = ps @ ''min_from_main_block'' @ ss then Basarili
      else Diger) \<and>
   ((\<exists>ps ss. s = ps @ ''min_from_main_block'' @ ss) \<longrightarrow>
      fst (categorize_note ns s) = Basarili) \<and>
   fst (categorize_note ns s) \<in> {Basarili, Veri_Cekilemedi, Diger}"
proof -
  have fixed: "fst (categorize_note success_notes ''CRASH_OR_TIMEOUT'') = Veri_Cekilemedi"
    "fst (categorize_note success_notes ''min_from_list'') = Basarili"
    "fst (categorize_note success_notes ''xyz'') = Diger"
    by (simp_all add: categorize_note_def success_notes_def error_notes_def)
  have rule: "fst (categorize_note success_notes s) =
     (if s \<in> set success_notes then Basarili
      else if s \<in> set error_notes then Veri_Cekilemedi
      else if \<exists>ps ss. s = ps @ ''min_from_main_block'' @ ss then Basarili
      else Diger)"
    by (simp only: categorize_note_cases str_contains_iff)
  have block: "fst (categorize_note ns s) = Basarili"
    if "\<exists>ps ss. s = ps @ ''min_from_main_block'' @ ss"
  proof -
    from that have c: "str_contains ''min_from_main_block'' s"
      by (simp only: str_contains_iff)
    then have "s \<notin> set error_notes" using error_notes_no_block by blast
    with c show ?thesis by (simp add: categorize_note_cases)
  qed
  have total: "fst (categorize_note ns s) \<in> {Basarili, Veri_Cekilemedi, Diger}"
    by (cases "fst (categorize_note ns s)") simp_all
  from fixed rule block total show ?thesis by blast
qed

theorem categorize_note_classification_witness:
  "(\<exists>ps ss. ''x_min_from_main_block_2'' = ps @ ''min_from_main_block'' @ ss) \<and>
   ''x_min_from_main_block_2'' \<notin> set success_notes \<and>
   fst (categorize_note success_notes ''x_min_from_main_block_2'') = Basarili"
proof -
  have "''x_min_from_main_block_2'' = ''x_'' @ ''min_from_main_block'' @ ''_2''" by simp
  then have ex: "\<exists>ps ss. ''x_min_from_main_block_2'' = ps @ ''min_from_main_block'' @ ss"
    by blast
  have nin: "''x_min_from_main_block_2'' \<notin> set success_notes"
    by (simp add: success_notes_def)
  from categorize_note_classification [of "''x_min_from_main_block_2''" success_notes] ex
  have "fst (categorize_note success_notes ''x_min_from_main_block_2'') = Basarili"
    by blast
  with ex nin show ?thesis by blast
qed

text \<open>
  Claim C10. The classification is total and does not depend on the order of the calls:
  after any notes have been classified, a note gets the category it gets from the initial
  success list; the categories of a whole column are the categories of its notes taken
  one by one; so a note that occurs twice in a column gets the same category both times,
  whatever was classified between the two. The appended notes change the list, not any
  category.
\<close>

theorem categorize_note_order_independent:
  "fst (categorize_note (snd (apply_categorize_note success_notes between)) s) =
     fst (categorize_note success_notes s) \<and>
   fst (apply_categorize_note success_notes column) =
     map (\<lambda>x. fst (categorize_note success_notes x)) column \<and>
   fst (apply_categorize_note success_notes (pre @ s # between @ s # post)) ! length pre =
     fst (apply_categorize_note success_notes (pre @ s # between @ s # post)) !
       (length pre + 1 + length between) \<and>
   fst (categorize_note ns s) \<in> {Basarili, Veri_Cekilemedi, Diger}"
proof -
  note run = apply_categorize_note_stateless [OF notes_invariant_initial]
  have later: "fst (categorize_note (snd (apply_categorize_note success_notes between)) s) =
     fst (categorize_note success_notes s)"
    using run [of between] by (intro categorize_note_stateless) simp
  have col: "fst (apply_categorize_note success_notes c) =
     map (\<lambda>x. fst (categorize_note success_notes x)) c" for c
    using run [of c] by simp
  have twice: "fst (apply_categorize_note success_notes (pre @ s # between @ s # post)) ! length pre =
     fst (apply_categorize_note success_notes (pre @ s # between @ s # post)) !
       (length pre + 1 + length between)"
  proof -
    have "(pre @ s # between @ s # post) ! (length pre + 1 + length between) = s"
      by (simp add: nth_append)
    moreover have "(pre @ s # between @ s # post) ! length pre = s"
      by simp
    ultimately show ?thesis
      by (simp only: col) (simp add: nth_append)
  qed
  have total: "fst (categorize_note ns s) \<in> {Basarili, Veri_Cekilemedi, Diger}"
    by (cases "fst (categorize_note ns s)") simp_all
  from later col twice total show ?thesis by blast
qed

theorem categorize_note_order_independent_witness:
  "snd (apply_categorize_note success_notes [''x_min_from_main_block_2'', ''xyz'']) \<noteq> success_notes \<and>
   fst (categorize_note (snd (apply_categorize_note success_notes [''x_min_from_main_block_2'', ''xyz'']))
          ''x_min_from_main_block_2'') = Basarili \<and>
   fst (categorize_note success_notes ''x_min_from_main_block_2'') = Basarili \<and>
   fst (apply_categorize_note success_notes
          [''x_min_from_main_block_2'', ''CRASH_OR_TIMEOUT'', ''x_min_from_main_block_2''])
     = [Basarili, Veri_Cekilemedi, Basarili]"
proof -
  have first: "fst (categorize_note success_notes ''x_min_from_main_block_2'') = Basarili"
    by (simp add: categorize_note_def success_notes_def error_notes_def)
  have changed: "snd (apply_categorize_note success_notes [''x_min_from_main_block_2'', ''xyz''])
      \<noteq> success_notes"
    by (simp add: categorize_note_def success_notes_def error_notes_def)
  have failure: "fst (categorize_note success_notes ''CRASH_OR_TIMEOUT'') = Veri_Cekilemedi"
    by (simp add: categorize_note_def success_notes_def error_notes_def)
  note inst = categorize_note_order_independent
    [of "[''x_min_from_main_block_2'', ''xyz'']" "''x_min_from_main_block_2''"
        "[''x_min_from_main_block_2'', ''CRASH_OR_TIMEOUT'', ''x_min_from_main_block_2'']"]
  from inst first have later:
    "fst (categorize_note (snd (apply_categorize_note success_notes [''x_min_from_main_block_2'', ''xyz'']))
          ''x_min_from_main_block_2'') = Basarili"
    by simp
  from inst first failure have col: "fst (apply_categorize_note success_notes
          [''x_min_from_main_block_2'', ''CRASH_OR_TIMEOUT'', ''x_min_from_main_block_2''])
     = [Basarili, Veri_Cekilemedi, Basarili]"
    by simp
  from changed later first col show ?thesis by blast
qed

section \<open>Properties of the record merger\<close>

lemma fst_image_iff: "k \<in> fst ` set xs \<longleftrightarrow> (\<exists>b. (k, b) \<in> set xs)"
  by force

lemma partners_empty:
  "filter (\<lambda>(k', b). k' = k) right = [] \<longleftrightarrow> k \<notin> fst ` set right"
  unfolding fst_image_iff by (auto simp: filter_empty_conv)

lemma in_partner_rows:
  "(k', a', b) \<in> set (let partners = filter (\<lambda>(k', b). k' = k) right
        in if partners = [] then [(k, a, na_right)]
           else map (\<lambda>(k', b). (k, a, b)) partners) \<longleftrightarrow>
   k' = k \<and> a' = a \<and> ((k, b) \<in> set right \<or> (b = na_right \<and> k \<notin> fst ` set right))"
proof (cases "k \<in> fst ` set right")
  case True
  then have ne: "filter (\<lambda>(k', b). k' = k) right \<noteq> []" by (simp add: partners_empty)
  show ?thesis using True unfolding Let_def if_not_P [OF ne] by auto
next
  case False
  then have e: "filter (\<lambda>(k', b). k' = k) right = []" by (simp add: partners_empty)
  from False have "(k, b) \<notin> set right" unfolding fst_image_iff by blast
  then show ?thesis using False unfolding Let_def e by auto
qed

lemma in_pd_merge_outer:
  "(k, a, b) \<in> set (pd_merge_outer na_left na_right left right) \<longleftrightarrow>
     ((k, a) \<in> set left \<and> (k, b) \<in> set right) \<or>
     ((k, a) \<in> set left \<and> k \<notin> fst ` set right \<and> b = na_right) \<or>
     ((k, b) \<in> set right \<and> k \<notin> fst ` set left \<and> a = na_left)"
proof -
  let ?f = "\<lambda>(k, a). (let partners = filter (\<lambda>(k', b). k' = k) right
                   in if partners = [] then [(k, a, na_right)]
                      else map (\<lambda>(k', b). (k, a, b)) partners)"
  have "(k, a, b) \<in> set (concat (map ?f left)) \<longleftrightarrow>
        (\<exists>k0 a0. (k0, a0) \<in> set left \<and> (k, a, b) \<in> set (?f (k0, a0)))"
    by auto
  also have "\<dots> \<longleftrightarrow> (\<exists>k0 a0. (k0, a0) \<in> set left \<and> k = k0 \<and> a = a0 \<and>
       ((k0, b) \<in> set right \<or> (b = na_right \<and> k0 \<notin> fst ` set right)))"
    by (simp only: prod.case in_partner_rows)
  also have "\<dots> \<longleftrightarrow> ((k, a) \<in> set left \<and> (k, b) \<in> set right) \<or>
     ((k, a) \<in> set left \<and> k \<notin> fst ` set right \<and> b = na_right)"
    by blast
  finally have left_part: "(k, a, b) \<in> set (concat (map ?f left)) \<longleftrightarrow>
     ((k, a) \<in> set left \<and> (k, b) \<in> set right) \<or>
     ((k, a) \<in> set left \<and> k \<notin> fst ` set right \<and> b = na_right)" .
  have right_part:
    "(k, a, b) \<in> set (map (\<lambda>(k, b). (k, na_left, b))
            (filter (\<lambda>(k, b). k \<notin> set (map fst left)) right)) \<longleftrightarrow>
     ((k, b) \<in> set right \<and> k \<notin> fst ` set left \<and> a = na_left)"
    by auto
  show ?thesis
    unfolding pd_merge_outer_def set_sort set_append Un_iff left_part right_part by blast
qed

lemma keys_pd_merge_outer:
  "fst ` set (pd_merge_outer na_left na_right left right) = fst ` set left \<union> fst ` set right"
proof (intro set_eqI iffI)
  fix k
  assume "k \<in> fst ` set (pd_merge_outer na_left na_right left right)"
  then obtain a b where "(k, a, b) \<in> set (pd_merge_outer na_left na_right left right)"
    unfolding fst_image_iff by auto
  then show "k \<in> fst ` set left \<union> fst ` set right"
    unfolding in_pd_merge_outer Un_iff fst_image_iff by blast
next
  fix k
  assume k: "k \<in> fst ` set left \<union> fst ` set right"
  show "k \<in> fst ` set (pd_merge_outer na_left na_right left right)"
  proof (cases "k \<in> fst ` set left")
    case True
    then obtain a where a: "(k, a) \<in> set left" unfolding fst_image_iff by blast
    show ?thesis
    proof (cases "k \<in> fst ` set right")
      case True
      then obtain b where "(k, b) \<in> set right" unfolding fst_image_iff by blast
      with a have "(k, a, b) \<in> set (pd_merge_outer na_left na_right left right)"
        unfolding in_pd_merge_outer by blast
      then show ?thesis unfolding fst_image_iff by blast
    next
      case False
      with a have "(k, a, na_right) \<in> set (pd_merge_outer na_left na_right left right)"
        unfolding in_pd_merge_outer by blast
      then show ?thesis unfolding fst_image_iff by blast
    qed
  next
    case False
    with k obtain b where "(k, b) \<in> set right" unfolding Un_iff fst_image_iff by blast
    with False have "(k, na_left, b) \<in> set (pd_merge_outer na_left na_right left right)"
      unfolding in_pd_merge_outer by blast
    then show ?thesis unfolding fst_image_iff by blast
  qed
qed


lemma in_frame_rows:
  "(k, c) \<in> set (frame_rows df) \<longleftrightarrow>
     (\<exists>m \<in> set df. k = (m_otel m, m_checkin m) \<and>
        c = Some (m_fiyat m, m_para_birimi m, m_cekilme_zamani m, m_source_note m))"
  by (auto simp: frame_rows_def)

lemma keys_frame_rows: "fst ` set (frame_rows df) = keys_of df"
  by (force simp: frame_rows_def keys_of_def)

lemma cells_match_present: "(k, c) \<in> set (frame_rows df) \<Longrightarrow> cells_match df k c"
  by (auto simp: cells_match_def in_frame_rows)

lemma cells_match_absent: "k \<notin> keys_of df \<Longrightarrow> cells_match df k None"
  by (simp add: cells_match_def)

lemma outer_join_keys:
  "fst ` set (outer_join df_tr df_us df_de df_uk) =
     keys_of df_tr \<union> keys_of df_us \<union> keys_of df_de \<union> keys_of df_uk"
  by (simp only: outer_join_def Let_def keys_pd_merge_outer keys_frame_rows)

lemma outer_join_cells:
  assumes "(k, ((a, b), c), d) \<in> set (outer_join df_tr df_us df_de df_uk)"
  shows "cells_match df_tr k a \<and> cells_match df_us k b \<and>
         cells_match df_de k c \<and> cells_match df_uk k d"
proof -
  define m1 where "m1 = pd_merge_outer None None (frame_rows df_tr) (frame_rows df_us)"
  define m2 where "m2 = pd_merge_outer (None, None) None m1 (frame_rows df_de)"
  have k1: "fst ` set m1 = keys_of df_tr \<union> keys_of df_us"
    unfolding m1_def by (simp only: keys_pd_merge_outer keys_frame_rows)
  have k2: "fst ` set m2 = keys_of df_tr \<union> keys_of df_us \<union> keys_of df_de"
    unfolding m2_def by (simp only: keys_pd_merge_outer keys_frame_rows k1)
  have c1: "cells_match df_tr k' a' \<and> cells_match df_us k' b'" if "(k', a', b') \<in> set m1"
    for k' a' b'
  proof -
    from that consider
        "(k', a') \<in> set (frame_rows df_tr)" "(k', b') \<in> set (frame_rows df_us)"
      | "(k', a') \<in> set (frame_rows df_tr)" "k' \<notin> keys_of df_us" "b' = None"
      | "(k', b') \<in> set (frame_rows df_us)" "k' \<notin> keys_of df_tr" "a' = None"
      unfolding m1_def in_pd_merge_outer keys_frame_rows by blast
    then show ?thesis
      by cases (simp_all add: cells_match_present cells_match_absent)
  qed
  have c2: "cells_match df_tr k' a' \<and> cells_match df_us k' b' \<and> cells_match df_de k' c'"
    if "(k', (a', b'), c') \<in> set m2" for k' a' b' c'
  proof -
    from that consider
        "(k', a', b') \<in> set m1" "(k', c') \<in> set (frame_rows df_de)"
      | "(k', a', b') \<in> set m1" "k' \<notin> keys_of df_de" "c' = None"
      | "(k', c') \<in> set (frame_rows df_de)" "k' \<notin> keys_of df_tr \<union> keys_of df_us"
        "(a', b') = (None, None)"
      unfolding m2_def in_pd_merge_outer keys_frame_rows k1 by blast
    then show ?thesis
      by cases (simp_all add: c1 cells_match_present cells_match_absent)
  qed
  have "(k, ((a, b), c), d) \<in> set (pd_merge_outer ((None, None), None) None m2 (frame_rows df_uk))"
    using assms by (simp only: outer_join_def Let_def m1_def m2_def)
  then consider
      "(k, (a, b), c) \<in> set m2" "(k, d) \<in> set (frame_rows df_uk)"
    | "(k, (a, b), c) \<in> set m2" "k \<notin> keys_of df_uk" "d = None"
    | "(k, d) \<in> set (frame_rows df_uk)" "k \<notin> keys_of df_tr \<union> keys_of df_us \<union> keys_of df_de"
      "((a, b), c) = ((None, None), None)"
    unfolding in_pd_merge_outer keys_frame_rows k2 by blast
  then show ?thesis
    by cases (simp_all add: c2 cells_match_present cells_match_absent)
qed

lemma cells_match_market_cells:
  "cells_match df k c \<Longrightarrow>
   market_cells df k (fillna0 (fiyat_of c), para_birimi_of c, cekilme_zamani_of c, source_note_of c)"
  by (cases c)
    (auto simp: cells_match_def market_cells_def in_frame_rows keys_of_def fillna0_def fiyat_of_def
      para_birimi_of_def cekilme_zamani_of_def source_note_of_def)

lemma set_merge_dataframes:
  "set (merge_dataframes to_datetime df_tr df_us df_de df_uk) =
     (\<lambda>((o_name, c), cs). fillna_row ((o_name, to_datetime c), cs)) `
       set (outer_join df_tr df_us df_de df_uk)"
  by (simp add: merge_dataframes_def Let_def image_image case_prod_unfold)



lemma merged_row_of_join:
  assumes "(k, ((a, b), c), d) \<in> set (outer_join df_tr df_us df_de df_uk)"
  shows "\<exists>r \<in> set (merge_dataframes to_datetime df_tr df_us df_de df_uk).
     otel r = fst k \<and> checkin r = to_datetime (snd k) \<and>
     market_cells df_tr k (fiyat_tl r, para_birimi_tl r, cekilme_zamani_tr r, source_note_tr r) \<and>
     market_cells df_us k (fiyat_usd r, para_birimi_usd r, cekilme_zamani_us r, source_note_us r) \<and>
     market_cells df_de k (fiyat_eur r, para_birimi_eur r, cekilme_zamani_de r, source_note_de r) \<and>
     market_cells df_uk k (fiyat_gbp r, para_birimi_gbp r, cekilme_zamani_uk r, source_note_uk r)"
proof -
  let ?r = "fillna_row ((fst k, to_datetime (snd k)), ((a, b), c), d)"
  have "?r = (\<lambda>((o_name, c), cs). fillna_row ((o_name, to_datetime c), cs)) (k, ((a, b), c), d)"
    by (simp add: case_prod_unfold)
  with assms have mem: "?r \<in> set (merge_dataframes to_datetime df_tr df_us df_de df_uk)"
    unfolding set_merge_dataframes by (metis (no_types, lifting) image_eqI)
  note cm = outer_join_cells [OF assms]
  have "otel ?r = fst k" "checkin ?r = to_datetime (snd k)"
    "market_cells df_tr k (fiyat_tl ?r, para_birimi_tl ?r, cekilme_zamani_tr ?r, source_note_tr ?r)"
    "market_cells df_us k (fiyat_usd ?r, para_birimi_usd ?r, cekilme_zamani_us ?r, source_note_us ?r)"
    "market_cells df_de k (fiyat_eur ?r, para_birimi_eur ?r, cekilme_zamani_de ?r, source_note_de ?r)"
    "market_cells df_uk k (fiyat_gbp ?r, para_birimi_gbp ?r, cekilme_zamani_uk ?r, source_note_uk ?r)"
    using cm by (simp_all add: fillna_row_def cells_match_market_cells)
  with mem show ?thesis by blast
qed

lemma join_of_merged_row:
  assumes "r \<in> set (merge_dataframes to_datetime df_tr df_us df_de df_uk)"
  shows "\<exists>k \<in> keys_of df_tr \<union> keys_of df_us \<union> keys_of df_de \<union> keys_of df_uk.
     otel r = fst k \<and> checkin r = to_datetime (snd k) \<and>
     market_cells df_tr k (fiyat_tl r, para_birimi_tl r, cekilme_zamani_tr r, source_note_tr r) \<and>
     market_cells df_us k (fiyat_usd r, para_birimi_usd r, cekilme_zamani_us r, source_note_us r) \<and>
     market_cells df_de k (fiyat_eur r, para_birimi_eur r, cekilme_zamani_de r, source_note_de r) \<and>
     market_cells df_uk k (fiyat_gbp r, para_birimi_gbp r, cekilme_zamani_uk r, source_note_uk r)"
proof -
  from assms obtain x where x: "x \<in> set (outer_join df_tr df_us df_de df_uk)"
    and r: "r = (\<lambda>((o_name, c), cs). fillna_row ((o_name, to_datetime c), cs)) x"
    unfolding set_merge_dataframes by blast
  obtain k a b c d where xe: "x = (k, ((a, b), c), d)"
    by (metis prod.exhaust)
  have re: "r = fillna_row ((fst k, to_datetime (snd k)), ((a, b), c), d)"
    unfolding r xe by (simp add: case_prod_unfold)
  from x xe have mem: "(k, ((a, b), c), d) \<in> set (outer_join df_tr df_us df_de df_uk)" by simp
  then have "k \<in> fst ` set (outer_join df_tr df_us df_de df_uk)" by force
  then have k: "k \<in> keys_of df_tr \<union> keys_of df_us \<union> keys_of df_de \<union> keys_of df_uk"
    by (simp only: outer_join_keys)
  note cm = outer_join_cells [OF mem]
  have "otel r = fst k" "checkin r = to_datetime (snd k)"
    "market_cells df_tr k (fiyat_tl r, para_birimi_tl r, cekilme_zamani_tr r, source_note_tr r)"
    "market_cells df_us k (fiyat_usd r, para_birimi_usd r, cekilme_zamani_us r, source_note_us r)"
    "market_cells df_de k (fiyat_eur r, para_birimi_eur r, cekilme_zamani_de r, source_note_de r)"
    "market_cells df_uk k (fiyat_gbp r, para_birimi_gbp r, cekilme_zamani_uk r, source_note_uk r)"
    using cm unfolding re by (simp_all add: fillna_row_def cells_match_market_cells)
  with k show ?thesis by blast
qed

lemma merged_row_of_key:
  assumes "k \<in> keys_of df_tr \<union> keys_of df_us \<union> keys_of df_de \<union> keys_of df_uk"
  shows "\<exists>r \<in> set (merge_dataframes to_datetime df_tr df_us df_de df_uk).
     otel r = fst k \<and> checkin r = to_datetime (snd k) \<and>
     market_cells df_tr k (fiyat_tl r, para_birimi_tl r, cekilme_zamani_tr r, source_note_tr r) \<and>
     market_cells df_us k (fiyat_usd r, para_birimi_usd r, cekilme_zamani_us r, source_note_us r) \<and>
     market_cells df_de k (fiyat_eur r, para_birimi_eur r, cekilme_zamani_de r, source_note_de r) \<and>
     market_cells df_uk k (fiyat_gbp r, para_birimi_gbp r, cekilme_zamani_uk r, source_note_uk r)"
proof -
  from assms have "k \<in> fst ` set (outer_join df_tr df_us df_de df_uk)"
    by (simp only: outer_join_keys)
  then obtain y where "(k, y) \<in> set (outer_join df_tr df_us df_de df_uk)"
    unfolding fst_image_iff by blast
  moreover obtain a b c d where "y = (((a, b), c), d)" by (metis prod.exhaust)
  ultimately have "(k, ((a, b), c), d) \<in> set (outer_join df_tr df_us df_de df_uk)" by simp
  then show ?thesis by (rule merged_row_of_join)
qed

lemma merged_keys:
  "(\<lambda>r. (otel r, checkin r)) ` set (merge_dataframes to_datetime df_tr df_us df_de df_uk) =
   (\<lambda>(o_name, c). (o_name, to_datetime c)) `
     (keys_of df_tr \<union> keys_of df_us \<union> keys_of df_de \<union> keys_of df_uk)"
proof (intro set_eqI iffI)
  fix x
  assume "x \<in> (\<lambda>r. (otel r, checkin r)) `
    set (merge_dataframes to_datetime df_tr df_us df_de df_uk)"
  then obtain r where r: "r \<in> set (merge_dataframes to_datetime df_tr df_us df_de df_uk)"
    and x: "x = (otel r, checkin r)" by blast
  from join_of_merged_row [OF r] obtain k
    where "k \<in> keys_of df_tr \<union> keys_of df_us \<union> keys_of df_de \<union> keys_of df_uk"
      and "otel r = fst k" "checkin r = to_datetime (snd k)" by blast
  with x show "x \<in> (\<lambda>(o_name, c). (o_name, to_datetime c)) `
     (keys_of df_tr \<union> keys_of df_us \<union> keys_of df_de \<union> keys_of df_uk)"
    by (auto simp: case_prod_unfold)
next
  fix x
  assume "x \<in> (\<lambda>(o_name, c). (o_name, to_datetime c)) `
     (keys_of df_tr \<union> keys_of df_us \<union> keys_of df_de \<union> keys_of df_uk)"
  then obtain k where k: "k \<in> keys_of df_tr \<union> keys_of df_us \<union> keys_of df_de \<union> keys_of df_uk"
    and x: "x = (fst k, to_datetime (snd k))" by (auto simp: case_prod_unfold)
  from merged_row_of_key [OF k, of to_datetime] obtain r
    where "r \<in> set (merge_dataframes to_datetime df_tr df_us df_de df_uk)"
      and "otel r = fst k" "checkin r = to_datetime (snd k)" by blast
  with x show "x \<in> (\<lambda>r. (otel r, checkin r)) `
    set (merge_dataframes to_datetime df_tr df_us df_de df_uk)"
    by force
qed



lemma iso_to_datetime_examples:
  "iso_to_datetime ''2025-06-01'' = Some (2025, 6, 1)"
  "iso_to_datetime ''yarin'' = None"
  by code_simp+





text \<open>
  Claim C5. The merge is a full outer join on the hotel and the check-in text: the key set
  of the join is the union of the key sets of the four frames, and the keys of the merged
  table are these keys with the check-in text parsed. Every key of any market has a merged
  row, also a key that only one market has; in that row each market holds the cells of one
  of its rows with the key, or, when the market has no row with the key, the price 0 (not
  a missing value) and missing descriptive cells. Every merged row is such a row.
\<close>

theorem merge_is_outer_join:
  "fst ` set (outer_join df_tr df_us df_de df_uk) =
     keys_of df_tr \<union> keys_of df_us \<union> keys_of df_de \<union> keys_of df_uk \<and>
   (\<lambda>r. (otel r, checkin r)) ` set (merge_dataframes to_datetime df_tr df_us df_de df_uk) =
     (\<lambda>(o_name, c). (o_name, to_datetime c)) `
       (keys_of df_tr \<union> keys_of df_us \<union> keys_of df_de \<union> keys_of df_uk) \<and>
   (\<forall>k \<in> keys_of df_tr \<union> keys_of df_us \<union> keys_of df_de \<union> keys_of df_uk.
      \<exists>r \<in> set (merge_dataframes to_datetime df_tr df_us df_de df_uk).
        otel r = fst k \<and> checkin r = to_datetime (snd k) \<and>
        market_cells df_tr k (fiyat_tl r, para_birimi_tl r, cekilme_zamani_tr r, source_note_tr r) \<and>
        market_cells df_us k (fiyat_usd r, para_birimi_usd r, cekilme_zamani_us r, source_note_us r) \<and>
        market_cells df_de k (fiyat_eur r, para_birimi_eur r, cekilme_zamani_de r, source_note_de r) \<and>
        market_cells df_uk k (fiyat_gbp r, para_birimi_gbp r, cekilme_zamani_uk r, source_note_uk r)) \<and>
   (\<forall>r \<in> set (merge_dataframes to_datetime df_tr df_us df_de df_uk).
      \<exists>k \<in> keys_of df_tr \<union> keys_of df_us \<union> keys_of df_de \<union> keys_of df_uk.
        otel r = fst k \<and> checkin r = to_datetime (snd k) \<and>
        market_cells df_tr k (fiyat_tl r, para_birimi_tl r, cekilme_zamani_tr r, source_note_tr r) \<and>
        market_cells df_us k (fiyat_usd r, para_birimi_usd r, cekilme_zamani_us r, source_note_us r) \<and>
        market_cells df_de k (fiyat_eur r, para_birimi_eur r, cekilme_zamani_de r, source_note_de r) \<and>
        market_cells df_uk k (fiyat_gbp r, para_birimi_gbp r, cekilme_zamani_uk r, source_note_uk r))"
  by (intro conjI ballI outer_join_keys merged_keys merged_row_of_key join_of_merged_row)

theorem merge_is_outer_join_witness:
  "(''Grand Plaza'', ''2025-06-01'') \<in>
     keys_of [pazar_row ''Grand Plaza'' ''2025-06-01'' 3000] \<union>
     keys_of [pazar_row ''Alpha'' ''2025-06-02'' 80] \<union> keys_of [] \<union> keys_of [] \<and>
   (\<exists>r \<in> set (merge_dataframes iso_to_datetime [pazar_row ''Grand Plaza'' ''2025-06-01'' 3000]
                  [pazar_row ''Alpha'' ''2025-06-02'' 80] [] []).
      otel r = ''Grand Plaza'' \<and> checkin r = Some (2025, 6, 1) \<and>
      fiyat_tl r = 3000 \<and> fiyat_usd r = 0 \<and> fiyat_eur r = 0 \<and> fiyat_gbp r = 0 \<and>
      para_birimi_tl r = Some ''TRY'' \<and> para_birimi_usd r = None)"
proof -
  let ?tr = "[pazar_row ''Grand Plaza'' ''2025-06-01'' 3000]"
  let ?us = "[pazar_row ''Alpha'' ''2025-06-02'' 80]"
  let ?k = "(''Grand Plaza'', ''2025-06-01'')"
  have mem: "?k \<in> keys_of ?tr \<union> keys_of ?us \<union> keys_of [] \<union> keys_of []"
    by (simp add: keys_of_def pazar_row_def)
  from merge_is_outer_join [of ?tr ?us "[]" "[]" iso_to_datetime] mem
  obtain r where r: "r \<in> set (merge_dataframes iso_to_datetime ?tr ?us [] [])"
    and key: "otel r = fst ?k" "checkin r = iso_to_datetime (snd ?k)"
    and cells: "market_cells ?tr ?k (fiyat_tl r, para_birimi_tl r, cekilme_zamani_tr r, source_note_tr r)"
      "market_cells ?us ?k (fiyat_usd r, para_birimi_usd r, cekilme_zamani_us r, source_note_us r)"
      "market_cells [] ?k (fiyat_eur r, para_birimi_eur r, cekilme_zamani_de r, source_note_de r)"
      "market_cells [] ?k (fiyat_gbp r, para_birimi_gbp r, cekilme_zamani_uk r, source_note_uk r)"
    by blast
  from key have k': "otel r = ''Grand Plaza''" "checkin r = Some (2025, 6, 1)"
    by (simp_all add: iso_to_datetime_examples)
  from cells have c': "fiyat_tl r = 3000" "fiyat_usd r = 0" "fiyat_eur r = 0" "fiyat_gbp r = 0"
    "para_birimi_tl r = Some ''TRY''" "para_birimi_usd r = None"
    by (simp_all add: market_cells_def keys_of_def pazar_row_def)
  from r k' c' have "\<exists>r \<in> set (merge_dataframes iso_to_datetime ?tr ?us [] []).
      otel r = ''Grand Plaza'' \<and> checkin r = Some (2025, 6, 1) \<and>
      fiyat_tl r = 3000 \<and> fiyat_usd r = 0 \<and> fiyat_eur r = 0 \<and> fiyat_gbp r = 0 \<and>
      para_birimi_tl r = Some ''TRY'' \<and> para_birimi_usd r = None"
    by blast
  with mem show ?thesis by (intro conjI)
qed

end
